theory Spec2Isabelle
  imports Complex_Main "HOL-Library.Sublist"
begin

section \<open>The year reviewer of \<^verbatim>\<open>src/app.py\<close>\<close>

text \<open>
  The module holds two globals and one function:
  \<^verbatim>\<open>
  default = ["Meh", "Boring", "What about it?", "Nothing special"]
  present = 2021

  def review(year):
      if not isinstance(year, int):
          raise TypeError("Expected int, received {x}".format(x = type(year).__name__))
      if year > present:
          raise ValueError("Can't review a year that has not happened yet (year > {x})".format(x = present))
      if year == 0: return "Jesus Christ what a year!"
      elif year == 42: return "A year worth living for"
      elif year == 1337: return ":sunglasses:"
      elif year == 1984: return "You never felt alone"
      elif year == 1987: return "https://www.youtube.com/watch?v=dQw4w9WgXcQ"
      elif year == 2020: return "Sad year :("
      else: return default[random.randint(0, len(default) - 1)]
  \<close>
  The argument is dynamically typed, the two globals are read at every call, an exception
  ends the call, and the last branch draws a random index. Each of the four is explicit in
  the model: a datatype of run-time values, a record of the globals that is passed in and
  handed back, a sum type whose left side is the exception, and a finite distribution of
  the outcomes.
\<close>

subsection \<open>Run-time values\<close>

text \<open>
  A float is kept apart from the integers: its payload is the number it stands for, or one
  of the three special values. \<open>PyObject c\<close> is an instance of any other class, named
  \<open>c\<close>, that does not derive from \<open>int\<close>.
\<close>

datatype pyfloat = Finite real | PosInf | NegInf | NaN

datatype pyval =
    PyInt int
  | PyBool bool
  | PyFloat pyfloat
  | PyStr string
  | PyNone
  | PyObject string

text \<open>\<^verbatim>\<open>type(v).__name__\<close>\<close>

fun type_name :: "pyval \<Rightarrow> string" where
  "type_name (PyInt _) = ''int''"
| "type_name (PyBool _) = ''bool''"
| "type_name (PyFloat _) = ''float''"
| "type_name (PyStr _) = ''str''"
| "type_name PyNone = ''NoneType''"
| "type_name (PyObject c) = c"

text \<open>
  \<^verbatim>\<open>isinstance(v, int)\<close> holds for an \<open>int\<close> and for an instance of a subclass of
  \<open>int\<close>. Python's \<open>bool\<close> is such a subclass, with \<open>False\<close> and \<open>True\<close> comparing as
  \<open>0\<close> and \<open>1\<close>. \<open>as_int v\<close> is the integer that \<open>v\<close> compares as when the test holds, and
  \<open>None\<close> when it fails.
\<close>

fun as_int :: "pyval \<Rightarrow> int option" where
  "as_int (PyInt i) = Some i"
| "as_int (PyBool b) = Some (if b then 1 else 0)"
| "as_int (PyFloat _) = None"
| "as_int (PyStr _) = None"
| "as_int PyNone = None"
| "as_int (PyObject _) = None"

definition isinstance_int :: "pyval \<Rightarrow> bool" where
  "isinstance_int v \<longleftrightarrow> as_int v \<noteq> None"

subsection \<open>Exceptions\<close>

datatype error = TypeError string | ValueError string | IndexError string

fun is_TypeError :: "error + 'a \<Rightarrow> bool" where
  "is_TypeError (Inl (TypeError _)) = True"
| "is_TypeError _ = False"

fun is_ValueError :: "error + 'a \<Rightarrow> bool" where
  "is_ValueError (Inl (ValueError _)) = True"
| "is_ValueError _ = False"

subsection \<open>Formatting an integer\<close>

text \<open>\<^verbatim>\<open>"{x}".format(x = n)\<close> for an integer \<open>n\<close>: its decimal digits, after a minus sign
  when it is negative.\<close>

fun digits :: "nat \<Rightarrow> string" where
  "digits n =
     (if n < 10 then [''0123456789'' ! n]
      else digits (n div 10) @ [''0123456789'' ! (n mod 10)])"

declare digits.simps [simp del]

definition format_int :: "int \<Rightarrow> string" where
  "format_int n = (if n < 0 then CHR ''-'' # digits (nat (- n)) else digits (nat n))"

subsection \<open>Finite distributions\<close>

text \<open>
  A distribution is a list of outcomes with their probabilities. An outcome may be listed
  more than once; its probability is the sum over its entries.
\<close>

type_synonym 'a dist = "('a \<times> rat) list"

definition certainly :: "'a \<Rightarrow> 'a dist" where
  "certainly x = [(x, 1)]"

definition uniform :: "'a list \<Rightarrow> 'a dist" where
  "uniform xs = map (\<lambda>x. (x, 1 / of_nat (length xs))) xs"

definition map_dist :: "('a \<Rightarrow> 'b) \<Rightarrow> 'a dist \<Rightarrow> 'b dist" where
  "map_dist f d = map (\<lambda>e. (f (fst e), snd e)) d"

definition prob :: "'a dist \<Rightarrow> 'a \<Rightarrow> rat" where
  "prob d x = sum_list (map snd (filter (\<lambda>e. fst e = x) d))"

definition total :: "'a dist \<Rightarrow> rat" where
  "total d = sum_list (map snd d)"

definition support :: "'a dist \<Rightarrow> 'a set" where
  "support d = fst ` set (filter (\<lambda>e. 0 < snd e) d)"

subsection \<open>The library calls\<close>

text \<open>
  \<^verbatim>\<open>random.randint(a, b)\<close> belongs to the standard library. Its contract is taken as
  given: a random integer \<open>N\<close> with \<open>a \<le> N \<le> b\<close>, each one equally likely, and a
  \<open>ValueError\<close> when the range is empty (the text of that message varies with the
  library's version and is abbreviated).
\<close>

definition randint :: "int \<Rightarrow> int \<Rightarrow> error + int dist" where
  "randint a b =
     (if b < a then Inl (ValueError ''empty range for randrange()'')
      else Inr (uniform [a..b]))"

text \<open>\<^verbatim>\<open>xs[i]\<close> on a list: an index below zero counts from the end, and an index out of
  range raises.\<close>

definition getitem :: "'a list \<Rightarrow> int \<Rightarrow> error + 'a" where
  "getitem xs i =
     (if 0 \<le> i \<and> i < int (length xs) then Inr (xs ! nat i)
      else if - int (length xs) \<le> i \<and> i < 0 then Inr (xs ! nat (int (length xs) + i))
      else Inl (IndexError ''list index out of range''))"

subsection \<open>The module\<close>

text \<open>The globals of the module. \<open>default\<close> is a constant of HOL, so the field that holds
  the list \<^verbatim>\<open>default\<close> is \<open>default_list\<close>.\<close>

record globals =
  default_list :: "string list"
  present :: int

definition init_globals :: globals where
  "init_globals =
     \<lparr> default_list = [''Meh'', ''Boring'', ''What about it?'', ''Nothing special''],
       present = 2021 \<rparr>"

text \<open>
  \<open>review g year\<close> is the call \<^verbatim>\<open>review(year)\<close> with the globals \<open>g\<close>: the distribution
  of its result, an exception or the returned string, paired with the globals after the
  call.
\<close>

definition review :: "globals \<Rightarrow> pyval \<Rightarrow> ((error + string) \<times> globals) dist" where
  "review g year =
     (case as_int year of
        None \<Rightarrow>
          certainly (Inl (TypeError (''Expected int, received '' @ type_name year)), g)
      | Some y \<Rightarrow>
          if y > present g then
            certainly
              (Inl (ValueError (''Can't review a year that has not happened yet (year > ''
                                  @ format_int (present g) @ '')'')), g)
          else if y = 0 then certainly (Inr ''Jesus Christ what a year!'', g)
          else if y = 42 then certainly (Inr ''A year worth living for'', g)
          else if y = 1337 then certainly (Inr '':sunglasses:'', g)
          else if y = 1984 then certainly (Inr ''You never felt alone'', g)
          else if y = 1987 then
            certainly (Inr ''https://www.youtube.com/watch?v=dQw4w9WgXcQ'', g)
          else if y = 2020 then certainly (Inr ''Sad year :('', g)
          else
            (case randint 0 (int (length (default_list g)) - 1) of
               Inl e \<Rightarrow> certainly (Inl e, g)
             | Inr d \<Rightarrow> map_dist (\<lambda>i. (getitem (default_list g) i, g)) d))"

text \<open>A call raises a \<open>TypeError\<close> when it has outcomes and each of them is one.\<close>

definition raises_TypeError :: "((error + string) \<times> globals) dist \<Rightarrow> bool" where
  "raises_TypeError d \<longleftrightarrow> d \<noteq> [] \<and> list_all (\<lambda>e. is_TypeError (fst (fst e))) d"

section \<open>Properties\<close>

subsection \<open>The branches of \<open>review\<close>\<close>

lemma randint_default:
  "randint 0 (int (length (default_list init_globals)) - 1) = Inr (uniform [0, 1, 2, 3])"
  by (simp add: randint_def init_globals_def upto_rec1)

lemma uniform_four: "uniform [0, 1, 2, 3::int] = [(0, 1/4), (1, 1/4), (2, 1/4), (3, 1/4)]"
  by (simp add: uniform_def)

lemma review_default:
  assumes "y \<le> 2021" and "y \<notin> {0, 42, 1337, 1984, 2020, 1987}"
  shows "review init_globals (PyInt y) =
           [((Inr ''Meh'', init_globals), 1/4),
            ((Inr ''Boring'', init_globals), 1/4),
            ((Inr ''What about it?'', init_globals), 1/4),
            ((Inr ''Nothing special'', init_globals), 1/4)]"
proof -
  have pick: "map_dist (\<lambda>i. (getitem (default_list init_globals) i, init_globals))
                [(0, 1/4), (1, 1/4), (2, 1/4), (3, 1/4)]
              = [((Inr ''Meh'', init_globals), 1/4),
                 ((Inr ''Boring'', init_globals), 1/4),
                 ((Inr ''What about it?'', init_globals), 1/4),
                 ((Inr ''Nothing special'', init_globals), 1/4)]"
    by (simp add: map_dist_def getitem_def init_globals_def)
  have "present init_globals = 2021"
    by (simp add: init_globals_def)
  with assms show ?thesis
    by (simp add: review_def randint_default uniform_four pick)
qed

lemma support_default:
  assumes "y \<le> 2021" and "y \<notin> {0, 42, 1337, 1984, 2020, 1987}"
  shows "support (review init_globals (PyInt y)) =
           {(Inr ''Meh'', init_globals), (Inr ''Boring'', init_globals),
            (Inr ''What about it?'', init_globals), (Inr ''Nothing special'', init_globals)}"
  by (simp add: review_default [OF assms] support_def)

text \<open>The fixed answers, the type check, booleans and the globals.\<close>

lemma review_special:
  "review init_globals (PyInt 0) = certainly (Inr ''Jesus Christ what a year!'', init_globals)"
  "review init_globals (PyInt 42) = certainly (Inr ''A year worth living for'', init_globals)"
  "review init_globals (PyInt 1337) = certainly (Inr '':sunglasses:'', init_globals)"
  "review init_globals (PyInt 1984) = certainly (Inr ''You never felt alone'', init_globals)"
  "review init_globals (PyInt 1987) =
     certainly (Inr ''https://www.youtube.com/watch?v=dQw4w9WgXcQ'', init_globals)"
  "review init_globals (PyInt 2020) = certainly (Inr ''Sad year :('', init_globals)"
  by (simp_all add: review_def init_globals_def)

lemma review_not_int:
  "as_int v = None \<Longrightarrow>
     review g v = certainly (Inl (TypeError (''Expected int, received '' @ type_name v)), g)"
  by (simp add: review_def)

lemma review_bool: "review g (PyBool b) = review g (PyInt (if b then 1 else 0))"
  by (simp add: review_def)

lemma states_review: "(x, p) \<in> set (review g v) \<Longrightarrow> snd x = g"
  by (auto simp: review_def certainly_def map_dist_def split: option.splits if_splits sum.splits)

subsection \<open>The claims\<close>

text \<open>
  C1. For every integer \<open>y \<le> 2021\<close> that is none of the years 0, 42, 1337, 1984, 2020
  and 1987, \<open>review(y)\<close> returns a member of \<open>default\<close>: the call has an outcome, and
  each outcome is a returned message of the list, with the globals as they were. The bound
  is inclusive: the same holds of \<open>review(2021)\<close>.
\<close>

theorem review_returns_default:
  "(y \<le> 2021 \<and> y \<notin> {0, 42, 1337, 1984, 2020, 1987} \<longrightarrow>
      support (review init_globals (PyInt y)) \<noteq> {} \<and>
      (\<forall>x \<in> support (review init_globals (PyInt y)).
         \<exists>m \<in> set (default_list init_globals). x = (Inr m, init_globals)))
   \<and> support (review init_globals (PyInt 2021)) \<noteq> {}
   \<and> (\<forall>x \<in> support (review init_globals (PyInt 2021)).
         \<exists>m \<in> set (default_list init_globals). x = (Inr m, init_globals))"
proof -
  have dflt: "set (default_list init_globals) =
                {''Meh'', ''Boring'', ''What about it?'', ''Nothing special''}"
    by (simp add: init_globals_def)
  have one: "support (review init_globals (PyInt y)) \<noteq> {} \<and>
      (\<forall>x \<in> support (review init_globals (PyInt y)).
         \<exists>m \<in> set (default_list init_globals). x = (Inr m, init_globals))"
    if "y \<le> 2021" and "y \<notin> {0, 42, 1337, 1984, 2020, 1987}" for y
    unfolding support_default [OF that] dflt by blast
  have "(2021::int) \<le> 2021" and "(2021::int) \<notin> {0, 42, 1337, 1984, 2020, 1987}"
    by simp_all
  from one [OF this] one show ?thesis
    by blast
qed

theorem review_returns_default_witness:
  "(1::int) \<le> 2021 \<and> (1::int) \<notin> {0, 42, 1337, 1984, 2020, 1987}
   \<and> support (review init_globals (PyInt 1)) \<noteq> {}
   \<and> (Inr ''Meh'', init_globals) \<in> support (review init_globals (PyInt 1))
   \<and> (\<exists>m \<in> set (default_list init_globals).
         (Inr ''Meh'' :: error + string, init_globals) = (Inr m, init_globals))"
proof -
  have h1: "(1::int) \<le> 2021"
    by simp
  have h2: "(1::int) \<notin> {0, 42, 1337, 1984, 2020, 1987}"
    by simp
  have mem: "(Inr ''Meh'', init_globals) \<in> support (review init_globals (PyInt 1))"
    by (simp add: support_default)
  from h1 h2 have h: "(1::int) \<le> 2021 \<and> (1::int) \<notin> {0, 42, 1337, 1984, 2020, 1987}"
    by (rule conjI)
  from review_returns_default [of 1]
  have "(1::int) \<le> 2021 \<and> (1::int) \<notin> {0, 42, 1337, 1984, 2020, 1987} \<longrightarrow>
      support (review init_globals (PyInt 1)) \<noteq> {} \<and>
      (\<forall>x \<in> support (review init_globals (PyInt 1)).
         \<exists>m \<in> set (default_list init_globals). x = (Inr m, init_globals))"
    by (rule conjunct1)
  from this h
  have concl: "support (review init_globals (PyInt 1)) \<noteq> {} \<and>
      (\<forall>x \<in> support (review init_globals (PyInt 1)).
         \<exists>m \<in> set (default_list init_globals). x = (Inr m, init_globals))"
    by (rule mp)
  then have ne: "support (review init_globals (PyInt 1)) \<noteq> {}"
    by (rule conjunct1)
  from concl have every: "\<forall>x \<in> support (review init_globals (PyInt 1)).
         \<exists>m \<in> set (default_list init_globals). x = (Inr m, init_globals)"
    by (rule conjunct2)
  have ex: "\<exists>m \<in> set (default_list init_globals).
         (Inr ''Meh'' :: error + string, init_globals) = (Inr m, init_globals)"
    by (rule bspec [OF every mem])
  show ?thesis
    by (intro conjI h1 h2 ne mem ex)
qed

text \<open>
  C2. Each of the six special years has its fixed answer: \<open>review\<close> returns it with
  certainty at 0, 42, 1337, 1984, 1987 and 2020.
\<close>

theorem review_special_years:
  "review init_globals (PyInt 0) = certainly (Inr ''Jesus Christ what a year!'', init_globals)
   \<and> review init_globals (PyInt 42) = certainly (Inr ''A year worth living for'', init_globals)
   \<and> review init_globals (PyInt 1337) = certainly (Inr '':sunglasses:'', init_globals)
   \<and> review init_globals (PyInt 1984) = certainly (Inr ''You never felt alone'', init_globals)
   \<and> review init_globals (PyInt 1987) =
       certainly (Inr ''https://www.youtube.com/watch?v=dQw4w9WgXcQ'', init_globals)
   \<and> review init_globals (PyInt 2020) = certainly (Inr ''Sad year :('', init_globals)"
  by (simp add: review_def init_globals_def)

text \<open>
  C3. For every integer \<open>y > 2021\<close>, \<open>review(y)\<close> raises a \<open>ValueError\<close>. Its message
  begins with the sentence "Can't review a year that has not happened yet" and contains the
  formatted value of \<open>present\<close>, 2021.
\<close>

theorem review_future_year:
  assumes "y > 2021"
  shows "review init_globals (PyInt y) =
           certainly
             (Inl (ValueError ''Can't review a year that has not happened yet (year > 2021)''),
              init_globals)
         \<and> prefix ''Can't review a year that has not happened yet''
              ''Can't review a year that has not happened yet (year > 2021)''
         \<and> sublist (format_int (present init_globals))
              ''Can't review a year that has not happened yet (year > 2021)''"
proof -
  have p: "present init_globals = 2021"
    by (simp add: init_globals_def)
  have f: "format_int 2021 = ''2021''"
    by (simp add: format_int_def digits.simps)
  have "''Can't review a year that has not happened yet (year > 2021)''
          = ''Can't review a year that has not happened yet (year > '' @ ''2021'' @ '')''"
    by simp
  then have s: "sublist ''2021'' ''Can't review a year that has not happened yet (year > 2021)''"
    unfolding sublist_def by blast
  from assms show ?thesis
    by (simp add: review_def p f s)
qed

theorem review_future_year_witness:
  "(2022::int) > 2021
   \<and> review init_globals (PyInt 2022) =
       certainly
         (Inl (ValueError ''Can't review a year that has not happened yet (year > 2021)''),
          init_globals)"
  using review_future_year [of 2022] by simp

text \<open>
  C4. For every argument that is not an instance of \<open>int\<close> (a float, a string,
  \<open>None\<close>, an object of another class), \<open>review\<close> raises a \<open>TypeError\<close> whose message
  contains the name of the argument's run-time type.
\<close>

theorem review_type_error:
  assumes "\<not> isinstance_int v"
  shows "review init_globals v =
           certainly (Inl (TypeError (''Expected int, received '' @ type_name v)), init_globals)
         \<and> raises_TypeError (review init_globals v)
         \<and> sublist (type_name v) (''Expected int, received '' @ type_name v)"
proof -
  from assms have "as_int v = None"
    by (simp add: isinstance_int_def)
  then have "review init_globals v =
           certainly (Inl (TypeError (''Expected int, received '' @ type_name v)), init_globals)"
    by (rule review_not_int)
  moreover have "sublist (type_name v) (''Expected int, received '' @ type_name v)"
  proof -
    have "''Expected int, received '' @ type_name v
            = ''Expected int, received '' @ type_name v @ []"
      by simp
    then show ?thesis
      unfolding sublist_def by blast
  qed
  ultimately show ?thesis
    by (simp add: raises_TypeError_def certainly_def)
qed

theorem review_type_error_witness:
  "\<not> isinstance_int (PyStr ''2020'')
   \<and> review init_globals (PyStr ''2020'') =
       certainly (Inl (TypeError ''Expected int, received str''), init_globals)
   \<and> \<not> isinstance_int (PyFloat (Finite 1.5))
   \<and> review init_globals (PyFloat (Finite 1.5)) =
       certainly (Inl (TypeError ''Expected int, received float''), init_globals)"
  using review_type_error [of "PyStr ''2020''"] review_type_error [of "PyFloat (Finite 1.5)"]
  by (simp add: isinstance_int_def)

text \<open>
  C5, as stated: every boolean argument is rejected with a \<open>TypeError\<close>. It fails at both
  booleans: neither call raises a \<open>TypeError\<close>, and \<open>review(False)\<close> returns the answer of
  the year 0.
\<close>

theorem review_bool_rejected_counterexample:
  "\<not> raises_TypeError (review init_globals (PyBool False))
   \<and> \<not> raises_TypeError (review init_globals (PyBool True))
   \<and> review init_globals (PyBool False) =
       certainly (Inr ''Jesus Christ what a year!'', init_globals)"
  by (simp add: review_bool review_default review_special raises_TypeError_def certainly_def)

text \<open>
  C5, amended. A boolean is an instance of \<open>int\<close>, so the type check lets it pass and
  \<open>review\<close> treats \<open>False\<close> as the year 0 and \<open>True\<close> as the year 1: no boolean raises a
  \<open>TypeError\<close>, \<open>review(False)\<close> returns "Jesus Christ what a year!", and the outcomes of
  \<open>review(True)\<close> are the members of \<open>default\<close>.
\<close>

theorem review_bool_accepted:
  "isinstance_int (PyBool b)
   \<and> review g (PyBool b) = review g (PyInt (if b then 1 else 0))
   \<and> \<not> raises_TypeError (review init_globals (PyBool b))
   \<and> review init_globals (PyBool False) =
       certainly (Inr ''Jesus Christ what a year!'', init_globals)
   \<and> support (review init_globals (PyBool True)) =
       (\<lambda>m. (Inr m, init_globals)) ` set (default_list init_globals)"
proof -
  have "\<not> raises_TypeError (review init_globals (PyBool b))"
    by (cases b)
       (simp_all add: review_bool review_default review_special raises_TypeError_def
          certainly_def)
  moreover have "support (review init_globals (PyBool True)) =
       (\<lambda>m. (Inr m, init_globals)) ` set (default_list init_globals)"
    by (simp add: review_bool support_default) (simp add: init_globals_def)
  ultimately show ?thesis
    by (simp add: review_bool review_special isinstance_int_def)
qed

text \<open>
  C6. For every integer \<open>y \<le> 2021\<close> that is not a special year, the index is drawn by
  \<open>randint(0, 3)\<close>, uniform on 0, 1, 2, 3; the list has four distinct entries, and each of
  them is returned with probability 1/4.
\<close>

theorem review_uniform:
  assumes "y \<le> 2021" and "y \<notin> {0, 42, 1337, 1984, 2020, 1987}"
  shows "randint 0 (int (length (default_list init_globals)) - 1) = Inr (uniform [0, 1, 2, 3])
         \<and> review init_globals (PyInt y) =
             map_dist (\<lambda>i. (getitem (default_list init_globals) i, init_globals))
               (uniform [0, 1, 2, 3])
         \<and> (\<forall>i \<in> {0, 1, 2, 3}. prob (uniform [0, 1, 2, 3::int]) i = 1 / 4)
         \<and> length (default_list init_globals) = 4
         \<and> distinct (default_list init_globals)
         \<and> (\<forall>m \<in> set (default_list init_globals).
               prob (review init_globals (PyInt y)) (Inr m, init_globals) = 1 / 4)
         \<and> total (review init_globals (PyInt y)) = 1"
proof -
  note r = review_default [OF assms]
  have "review init_globals (PyInt y) =
             map_dist (\<lambda>i. (getitem (default_list init_globals) i, init_globals))
               (uniform [0, 1, 2, 3])"
    unfolding r by (simp add: uniform_four map_dist_def getitem_def init_globals_def)
  moreover have "\<forall>i \<in> {0, 1, 2, 3}. prob (uniform [0, 1, 2, 3::int]) i = 1 / 4"
    by (simp add: uniform_four prob_def)
  moreover have "length (default_list init_globals) = 4 \<and> distinct (default_list init_globals)"
    by (simp add: init_globals_def)
  moreover have "\<forall>m \<in> set (default_list init_globals).
               prob (review init_globals (PyInt y)) (Inr m, init_globals) = 1 / 4"
    unfolding r by (simp add: init_globals_def prob_def)
  moreover have "total (review init_globals (PyInt y)) = 1"
    unfolding r by (simp add: total_def)
  ultimately show ?thesis
    using randint_default by blast
qed

theorem review_uniform_witness:
  "(1::int) \<le> 2021 \<and> (1::int) \<notin> {0, 42, 1337, 1984, 2020, 1987}
   \<and> (3::int) \<in> {0, 1, 2, 3} \<and> prob (uniform [0, 1, 2, 3::int]) 3 = 1 / 4
   \<and> ''Boring'' \<in> set (default_list init_globals)
   \<and> prob (review init_globals (PyInt 1)) (Inr ''Boring'', init_globals) = 1 / 4"
proof -
  have b: "''Boring'' \<in> set (default_list init_globals)"
    by (simp add: init_globals_def)
  have h: "(1::int) \<le> 2021" "(1::int) \<notin> {0, 42, 1337, 1984, 2020, 1987}"
    by simp_all
  from review_uniform [OF h]
  have idx: "\<forall>i \<in> {0, 1, 2, 3}. prob (uniform [0, 1, 2, 3::int]) i = 1 / 4"
    and msg: "\<forall>m \<in> set (default_list init_globals).
                prob (review init_globals (PyInt 1)) (Inr m, init_globals) = 1 / 4"
    by blast+
  from idx have "prob (uniform [0, 1, 2, 3::int]) 3 = 1 / 4"
    by simp
  moreover from msg b
  have "prob (review init_globals (PyInt 1)) (Inr ''Boring'', init_globals) = 1 / 4"
    by blast
  ultimately show ?thesis
    using b h by simp
qed

text \<open>
  C7. For every integer \<open>y \<le> 2021\<close>, \<open>review(y)\<close> returns a string and raises nothing:
  it has an outcome, no outcome is an exception, and the probabilities add up to 1. The
  draw \<open>randint(0, len(default) - 1)\<close> does not raise, and every index it can yield lies
  within the list, where the subscript returns the entry at that index.
\<close>

theorem review_no_other_error:
  assumes "y \<le> 2021"
  shows "support (review init_globals (PyInt y)) \<noteq> {}
         \<and> (\<forall>x \<in> support (review init_globals (PyInt y)). \<not> isl (fst x))
         \<and> total (review init_globals (PyInt y)) = 1
         \<and> (\<exists>d. randint 0 (int (length (default_list init_globals)) - 1) = Inr d
                \<and> support d \<noteq> {}
                \<and> (\<forall>i \<in> support d.
                      0 \<le> i \<and> i < int (length (default_list init_globals))
                      \<and> getitem (default_list init_globals) i
                          = Inr (default_list init_globals ! nat i)))"
proof -
  have ret: "support (review init_globals (PyInt y)) \<noteq> {}
         \<and> (\<forall>x \<in> support (review init_globals (PyInt y)). \<not> isl (fst x))
         \<and> total (review init_globals (PyInt y)) = 1"
  proof (cases "y \<in> {0, 42, 1337, 1984, 2020, 1987}")
    case True
    then show ?thesis
      by (auto simp: review_special certainly_def support_def total_def)
  next
    case False
    show ?thesis
      unfolding review_default [OF assms False] by (simp add: support_def total_def)
  qed
  have "support (uniform [0, 1, 2, 3::int]) = {0, 1, 2, 3}"
    by (simp add: uniform_four support_def)
  moreover have "\<forall>i \<in> {0, 1, 2, 3}.
                      0 \<le> i \<and> i < int (length (default_list init_globals))
                      \<and> getitem (default_list init_globals) i
                          = Inr (default_list init_globals ! nat i)"
    by (simp add: getitem_def init_globals_def)
  ultimately show ?thesis
    using ret randint_default by auto
qed

theorem review_no_other_error_witness:
  "(-10::int) \<le> 2021
   \<and> (Inr ''Nothing special'', init_globals) \<in> support (review init_globals (PyInt (-10)))
   \<and> \<not> isl (fst (Inr ''Nothing special'' :: error + string, init_globals))
   \<and> total (review init_globals (PyInt (-10))) = 1"
proof -
  have "(Inr ''Nothing special'', init_globals) \<in> support (review init_globals (PyInt (-10)))"
    by (simp add: support_default)
  then show ?thesis
    using review_no_other_error [of "-10"] by simp
qed

text \<open>
  C8. A call of \<open>review\<close> leaves the globals as they were, for every argument and at every
  outcome, a return or an exception. From the module's initial globals, \<open>default\<close> and
  \<open>present\<close> keep their initial values.
\<close>

theorem review_keeps_globals:
  "review g v \<noteq> []
   \<and> (\<forall>x \<in> set (review init_globals v).
         snd (fst x) = init_globals
         \<and> default_list (snd (fst x)) =
             [''Meh'', ''Boring'', ''What about it?'', ''Nothing special'']
         \<and> present (snd (fst x)) = 2021)
   \<and> (\<forall>x \<in> set (review g v). snd (fst x) = g)"
proof -
  have "review g v \<noteq> []"
    by (auto simp: review_def certainly_def map_dist_def randint_def uniform_def
          split: option.splits sum.splits)
  moreover have "snd (fst x) = h" if "x \<in> set (review h v)" for x h
    using that states_review [of "fst x" "snd x" h v] by simp
  ultimately show ?thesis
    by (auto simp: init_globals_def)
qed

theorem review_keeps_globals_witness:
  "((Inl (ValueError ''empty range for randrange()''), \<lparr>default_list = [], present = 5\<rparr>), 1)
     \<in> set (review \<lparr>default_list = [], present = 5\<rparr> (PyInt 3))
   \<and> ((Inr ''Meh'', init_globals), 1 / 4) \<in> set (review init_globals (PyInt 1))
   \<and> review \<lparr>default_list = [], present = 5\<rparr> (PyInt 3) \<noteq> []
   \<and> present (snd (fst ((Inr ''Meh'' :: error + string, init_globals), 1 / 4 :: rat))) = 2021"
proof -
  have "((Inl (ValueError ''empty range for randrange()''), \<lparr>default_list = [], present = 5\<rparr>), 1)
     \<in> set (review \<lparr>default_list = [], present = 5\<rparr> (PyInt 3))"
    by (simp add: review_def randint_def certainly_def)
  moreover have m: "((Inr ''Meh'', init_globals), 1 / 4) \<in> set (review init_globals (PyInt 1))"
    by (simp add: review_default)
  moreover from review_keeps_globals [of "\<lparr>default_list = [], present = 5\<rparr>" "PyInt 3"]
  have "review \<lparr>default_list = [], present = 5\<rparr> (PyInt 3) \<noteq> []"
    by blast
  moreover from review_keeps_globals [of init_globals "PyInt 1"]
  have "\<forall>x \<in> set (review init_globals (PyInt 1)). present (snd (fst x)) = 2021"
    by blast
  with m have "present (snd (fst ((Inr ''Meh'' :: error + string, init_globals), 1 / 4 :: rat))) = 2021"
    by blast
  ultimately show ?thesis
    by blast
qed

text \<open>
  C9. The module's \<open>default\<close> is the list of the four strings "Meh", "Boring",
  "What about it?", "Nothing special", in this order, and \<open>present\<close> is 2021.
\<close>

theorem module_constants:
  "default_list init_globals = [''Meh'', ''Boring'', ''What about it?'', ''Nothing special'']
   \<and> length (default_list init_globals) = 4
   \<and> present init_globals = 2021"
  by (simp add: init_globals_def)

text \<open>
  C10. The type check comes before the comparison with \<open>present\<close>: an argument that is
  not an instance of \<open>int\<close> raises a \<open>TypeError\<close> and never a \<open>ValueError\<close>, whatever the
  globals hold; so does the float 2525.0, whose value exceeds \<open>present\<close>.
\<close>

theorem review_type_check_first:
  assumes "\<not> isinstance_int v"
  shows "raises_TypeError (review g v)
         \<and> (\<forall>x \<in> set (review g v). is_TypeError (fst (fst x)) \<and> \<not> is_ValueError (fst (fst x)))
         \<and> real_of_int (present init_globals) < 2525
         \<and> review init_globals (PyFloat (Finite 2525)) =
             certainly (Inl (TypeError ''Expected int, received float''), init_globals)"
proof -
  from assms have "as_int v = None"
    by (simp add: isinstance_int_def)
  from review_not_int [OF this] have "raises_TypeError (review g v)
         \<and> (\<forall>x \<in> set (review g v). is_TypeError (fst (fst x)) \<and> \<not> is_ValueError (fst (fst x)))"
    by (simp add: raises_TypeError_def certainly_def)
  moreover have "real_of_int (present init_globals) < 2525"
    by (simp add: init_globals_def)
  moreover have "review init_globals (PyFloat (Finite 2525)) =
             certainly (Inl (TypeError ''Expected int, received float''), init_globals)"
    by (simp add: review_not_int)
  ultimately show ?thesis
    by blast
qed

theorem review_type_check_first_witness:
  "\<not> isinstance_int (PyFloat (Finite 2525))
   \<and> real_of_int (present \<lparr>default_list = [], present = 7\<rparr>) < 2525
   \<and> ((Inl (TypeError ''Expected int, received float''), \<lparr>default_list = [], present = 7\<rparr>), 1)
       \<in> set (review \<lparr>default_list = [], present = 7\<rparr> (PyFloat (Finite 2525)))
   \<and> raises_TypeError (review \<lparr>default_list = [], present = 7\<rparr> (PyFloat (Finite 2525)))"
proof -
  have "((Inl (TypeError ''Expected int, received float''), \<lparr>default_list = [], present = 7\<rparr>), 1)
       \<in> set (review \<lparr>default_list = [], present = 7\<rparr> (PyFloat (Finite 2525)))"
    by (simp add: review_def certainly_def)
  then show ?thesis
    using review_type_check_first [of "PyFloat (Finite 2525)" "\<lparr>default_list = [], present = 7\<rparr>"]
    by (simp add: isinstance_int_def)
qed

end
